theory Spec2Isabelle
  imports Main
begin

unbundle bit_operations_syntax

section \<open>Errors\<close>

text \<open>
  Every exception the Python sources can raise is a value of \<open>error\<close>; a function that may
  raise returns \<open>error + 'a\<close> with \<open>Inl\<close> for the exception.

  \<^item> \<open>NegativeNotAllowed\<close>: \<^verbatim>\<open>ValueError("negative value not allowed: ...")\<close> of \<^verbatim>\<open>bits.u\<close>;
  \<^item> \<open>ValueTooLarge\<close>: \<^verbatim>\<open>ValueError("value ... too large for u.. field")\<close> of \<^verbatim>\<open>bits.u\<close>;
  \<^item> \<open>SignedTooLarge\<close>: \<^verbatim>\<open>ValueError("value ... too large for i.. field ...")\<close> of \<^verbatim>\<open>bits.i\<close>;
  \<^item> \<open>NegativeShiftCount\<close>: Python's \<^verbatim>\<open>ValueError: negative shift count\<close>;
  \<^item> \<open>ReverseRange\<close>, \<open>SliceOutOfRange\<close>: the two \<^verbatim>\<open>ValueError\<close>s of \<^verbatim>\<open>bits.slice\<close>
    (and of \<^verbatim>\<open>format.ref_slice\<close>);
  \<^item> \<open>InvalidSegmentLine\<close>: \<^verbatim>\<open>ValueError("invalid segment line")\<close>;
  \<^item> \<open>InvalidLiteral\<close>: the \<^verbatim>\<open>ValueError\<close> of \<^verbatim>\<open>int(text)\<close> and \<^verbatim>\<open>int(text, 16)\<close>;
  \<^item> \<open>UnpackError\<close>: the \<^verbatim>\<open>ValueError\<close> of a tuple assignment whose sides differ in length;
  \<^item> \<open>ExpectedLabelled\<close>: \<^verbatim>\<open>ValueError("expected ... to be labelled ...")\<close> of \<^verbatim>\<open>subv.untag\<close>;
  \<^item> \<open>UnknownInstruction\<close>, \<open>OpcodeMismatch\<close>: the two \<^verbatim>\<open>ValueError\<close>s of \<^verbatim>\<open>format.format\<close>;
  \<^item> \<open>AssertNoOpLabel\<close>, \<open>AssertSliceWidth\<close>, \<open>AssertNoBounds\<close>, \<open>AssertOutsideBounds\<close>,
    \<open>AssertUndefinedLabel\<close>, \<open>AssertLineNotByteAligned\<close>, \<open>AssertNotByteAligned\<close>: the
    \<^verbatim>\<open>AssertionError\<close>s, one constructor for each \<^verbatim>\<open>assert\<close> statement;
  \<^item> \<open>IndexError\<close>, \<open>TypeError\<close>, \<open>KeyError\<close>: Python's own;
  \<^item> \<open>AttributeError\<close>: \<^verbatim>\<open>.groups()\<close> on the \<^verbatim>\<open>None\<close> of a regular expression that did not match;
  \<^item> \<open>NotImplementedError\<close>: raised by \<^verbatim>\<open>subv.format\<close> on a line that is no instruction.
\<close>

datatype error =
    NegativeNotAllowed
  | ValueTooLarge
  | SignedTooLarge
  | NegativeShiftCount
  | ReverseRange
  | SliceOutOfRange
  | InvalidSegmentLine
  | InvalidLiteral
  | UnpackError
  | ExpectedLabelled
  | UnknownInstruction
  | OpcodeMismatch
  | AssertNoOpLabel
  | AssertSliceWidth
  | AssertNoBounds
  | AssertOutsideBounds
  | AssertUndefinedLabel
  | AssertLineNotByteAligned
  | AssertNotByteAligned
  | IndexError
  | TypeError
  | KeyError
  | AttributeError
  | NotImplementedError

text \<open>Sequencing of two computations that may raise: the first exception ends the run.\<close>

definition bind :: "error + 'a \<Rightarrow> ('a \<Rightarrow> error + 'b) \<Rightarrow> error + 'b" where
  "bind m f = (case m of Inl e \<Rightarrow> Inl e | Inr x \<Rightarrow> f x)"

lemma bind_Inr [simp]: "bind (Inr x) f = f x"
  by (simp add: bind_def)

lemma bind_Inl [simp]: "bind (Inl e) f = Inl e"
  by (simp add: bind_def)

lemma bind_cong [fundef_cong]:
  "m = m' \<Longrightarrow> (\<And>x. m' = Inr x \<Longrightarrow> f x = f' x) \<Longrightarrow> bind m f = bind m' f'"
  by (cases m') (simp_all add: bind_def)

lemma bind_eq_Inr:
  "bind m f = Inr y \<longleftrightarrow> (\<exists>x. m = Inr x \<and> f x = Inr y)"
  by (cases m) simp_all

section \<open>bits.py: arithmetic on bit-fields\<close>

text \<open>
  Python integers are unbounded: they are \<open>int\<close>. A bit-field is the Python pair
  \<^verbatim>\<open>(value, width)\<close>, both of them Python integers. \<^verbatim>\<open>|\<close>, \<^verbatim>\<open>&\<close>, \<^verbatim>\<open><<\<close> and \<^verbatim>\<open>>>\<close> on Python
  integers are the two's complement operations \<open>OR\<close>, \<open>AND\<close>, \<open>push_bit\<close> and \<open>drop_bit\<close> of
  \<open>int\<close>; a negative shift count raises.
\<close>

type_synonym bitfield = "int \<times> int"

text \<open>\<^verbatim>\<open>int.bit_length()\<close>: the number of binary digits of the absolute value.\<close>

function bit_length :: "int \<Rightarrow> int" where
  "bit_length n = (if n = 0 then 0 else 1 + bit_length (\<bar>n\<bar> div 2))"
  by pat_completeness auto
termination
  by (relation "measure (\<lambda>n. nat \<bar>n\<bar>)") auto

declare bit_length.simps [simp del]

text \<open>\<^verbatim>\<open>a << k\<close> and \<^verbatim>\<open>a >> k\<close>.\<close>

definition shl :: "int \<Rightarrow> int \<Rightarrow> error + int" where
  "shl a k = (if k < 0 then Inl NegativeShiftCount else Inr (push_bit (nat k) a))"

definition shr :: "int \<Rightarrow> int \<Rightarrow> error + int" where
  "shr a k = (if k < 0 then Inl NegativeShiftCount else Inr (drop_bit (nat k) a))"

text \<open>\<^verbatim>\<open>bits.u(num, bits)\<close>.\<close>

definition u :: "int \<Rightarrow> int \<Rightarrow> error + bitfield" where
  "u num bits =
     (if num < 0 then Inl NegativeNotAllowed
      else if bit_length num > bits then Inl ValueTooLarge
      else Inr (num, bits))"

text \<open>\<^verbatim>\<open>bits.i(num, bits)\<close>. The bounds are computed first, with \<^verbatim>\<open>1 << (bits - 1)\<close>.\<close>

definition i :: "int \<Rightarrow> int \<Rightarrow> error + bitfield" where
  "i num bits =
     bind (shl 1 (bits - 1)) (\<lambda>p.
       let mn = - p; mx = - 1 - mn in
       if num > mx \<or> num < mn then Inl SignedTooLarge
       else if num < 0 then bind (shl 1 bits) (\<lambda>q. u (q + num) bits)
       else u num bits)"

text \<open>
  \<^verbatim>\<open>bits.concat(*parts)\<close>: the loop over the parts, started at \<^verbatim>\<open>val, size = 0, 0\<close>.
\<close>

fun concat_from :: "bitfield \<Rightarrow> bitfield list \<Rightarrow> error + bitfield" where
  "concat_from acc [] = Inr acc"
| "concat_from (val, sz) ((pval, psize) # parts) =
     bind (shl pval sz) (\<lambda>s. concat_from (val OR s, sz + psize) parts)"

definition concat_bits :: "bitfield list \<Rightarrow> error + bitfield" where
  "concat_bits parts = concat_from (0, 0) parts"

text \<open>\<^verbatim>\<open>bits.slice(bits, hi, lo)\<close>.\<close>

definition slice :: "bitfield \<Rightarrow> int \<Rightarrow> int \<Rightarrow> error + bitfield" where
  "slice bits hi lo =
     (case bits of (val, sz) \<Rightarrow>
        if hi < lo then Inl ReverseRange
        else if lo < 0 \<or> hi \<ge> sz then Inl SliceOutOfRange
        else
          let sz' = hi - lo + 1 in
          bind (shr val lo) (\<lambda>a. bind (shl 1 sz') (\<lambda>b. Inr (a AND (b - 1), sz'))))"

section \<open>Python's strings and integers\<close>

text \<open>
  A Python string is a \<open>string\<close>; the model covers ASCII text, one \<open>char\<close> for each
  character. The functions of this section are the parts of Python's library the sources
  call: \<^verbatim>\<open>str.strip\<close>, \<^verbatim>\<open>str.split\<close>, \<^verbatim>\<open>str.join\<close>, \<^verbatim>\<open>str.startswith\<close>, \<^verbatim>\<open>str.endswith\<close>,
  \<^verbatim>\<open>int(text)\<close>, \<^verbatim>\<open>int(text, 16)\<close>, \<^verbatim>\<open>str(number)\<close>, \<^verbatim>\<open>'{:02x}'.format(number)\<close> and the four
  regular expressions of \<^verbatim>\<open>subv.py\<close>.
\<close>

text \<open>The characters \<^verbatim>\<open>str.strip()\<close> and \<^verbatim>\<open>int()\<close> treat as white space.\<close>

definition is_space :: "char \<Rightarrow> bool" where
  "is_space c \<longleftrightarrow> c \<in> set [CHR '' '', CHR 0x09, CHR 0x0A, CHR 0x0B, CHR 0x0C, CHR 0x0D,
                              CHR 0x1C, CHR 0x1D, CHR 0x1E, CHR 0x1F]"

definition strip :: "string \<Rightarrow> string" where
  "strip s = rev (dropWhile is_space (rev (dropWhile is_space s)))"

text \<open>\<^verbatim>\<open>s.split(c)\<close> for a one-character separator: never the empty list.\<close>

fun split_on :: "char \<Rightarrow> string \<Rightarrow> string list" where
  "split_on c [] = [[]]"
| "split_on c (x # xs) =
     (if x = c then [] # split_on c xs
      else let rest = split_on c xs in (x # hd rest) # tl rest)"

text \<open>\<^verbatim>\<open>s.split(c, 1)\<close>: at most one split, at the first occurrence.\<close>

definition split_first :: "char \<Rightarrow> string \<Rightarrow> string list" where
  "split_first c s =
     (case dropWhile (\<lambda>x. x \<noteq> c) s of
        [] \<Rightarrow> [s]
      | _ # rest \<Rightarrow> [takeWhile (\<lambda>x. x \<noteq> c) s, rest])"

text \<open>\<^verbatim>\<open>sep.join(xs)\<close>.\<close>

fun join :: "string \<Rightarrow> string list \<Rightarrow> string" where
  "join sep [] = []"
| "join sep [x] = x"
| "join sep (x # y # ys) = x @ sep @ join sep (y # ys)"

definition startswith :: "string \<Rightarrow> string \<Rightarrow> bool" where
  "startswith s p \<longleftrightarrow> take (length p) s = p"

definition endswith :: "string \<Rightarrow> string \<Rightarrow> bool" where
  "endswith s p \<longleftrightarrow> length p \<le> length s \<and> drop (length s - length p) s = p"

text \<open>
  The regular expression \<^verbatim>\<open>white = [ \t\.\n]+\<close> and \<^verbatim>\<open>white.split(s)\<close>: the pieces between the
  maximal runs of separators, with an empty piece before a leading and after a trailing run.
\<close>

definition is_white :: "char \<Rightarrow> bool" where
  "is_white c \<longleftrightarrow> c = CHR '' '' \<or> c = CHR 0x09 \<or> c = CHR ''.'' \<or> c = CHR 0x0A"

function white_split :: "string \<Rightarrow> string list" where
  "white_split [] = [[]]"
| "white_split (x # xs) =
     (if is_white x then [] # white_split (dropWhile is_white xs)
      else let rest = white_split xs in (x # hd rest) # tl rest)"
  by pat_completeness auto
termination
  by (relation "measure length") (auto simp: length_dropWhile_le less_Suc_eq_le)

text \<open>Digits: the value of a character as a digit of the base, upper and lower case.\<close>

definition digit_val :: "nat \<Rightarrow> char \<Rightarrow> nat option" where
  "digit_val b c =
     (let n = of_char c :: nat;
          v = (if 48 \<le> n \<and> n \<le> 57 then Some (n - 48)
               else if 97 \<le> n \<and> n \<le> 102 then Some (n - 87)
               else if 65 \<le> n \<and> n \<le> 70 then Some (n - 55)
               else None)
      in case v of None \<Rightarrow> None | Some d \<Rightarrow> if d < b then Some d else None)"

text \<open>
  The digits of \<^verbatim>\<open>int(text, base)\<close>: at least one digit, single underscores between digits.
  \<open>prev\<close> says that the character before was a digit.
\<close>

fun parse_digits :: "nat \<Rightarrow> string \<Rightarrow> int \<Rightarrow> bool \<Rightarrow> int option" where
  "parse_digits b [] acc prev = (if prev then Some acc else None)"
| "parse_digits b (c # cs) acc prev =
     (if c = CHR ''_'' then (if prev then parse_digits b cs acc False else None)
      else case digit_val b c of
             None \<Rightarrow> None
           | Some d \<Rightarrow> parse_digits b cs (acc * int b + int d) True)"

text \<open>
  \<^verbatim>\<open>int(text, base)\<close> for base 10 and 16: white space around the number is ignored, a sign
  may come first, base 16 accepts the prefix \<^verbatim>\<open>0x\<close> or \<^verbatim>\<open>0X\<close> (and one underscore after it).
\<close>

definition strip_prefix16 :: "string \<Rightarrow> string" where
  "strip_prefix16 s =
     (case s of
        c0 # cx # rest \<Rightarrow>
          if c0 = CHR ''0'' \<and> (cx = CHR ''x'' \<or> cx = CHR ''X'') then
            (case rest of c2 # rest' \<Rightarrow> if c2 = CHR ''_'' then rest' else rest | [] \<Rightarrow> rest)
          else s
      | _ \<Rightarrow> s)"

definition py_int :: "nat \<Rightarrow> string \<Rightarrow> error + int" where
  "py_int b text =
     (let s = strip text;
          neg = (case s of c # _ \<Rightarrow> c = CHR ''-'' | [] \<Rightarrow> False);
          signed = (case s of c # _ \<Rightarrow> c = CHR ''-'' \<or> c = CHR ''+'' | [] \<Rightarrow> False);
          body = (if signed then tl s else s);
          ds = (if b = 16 then strip_prefix16 body else body)
      in case parse_digits b ds 0 False of
           None \<Rightarrow> Inl InvalidLiteral
         | Some n \<Rightarrow> Inr (if neg then - n else n))"

text \<open>\<^verbatim>\<open>str(n)\<close> and \<^verbatim>\<open>'{:02x}'.format(n)\<close> for an integer \<open>n\<close>.\<close>

definition digit_char :: "int \<Rightarrow> char" where
  "digit_char d = (if d < 10 then char_of (48 + d) else char_of (87 + d))"

function digits_of :: "int \<Rightarrow> int \<Rightarrow> string" where
  "digits_of b n =
     (if b \<le> 1 \<or> n < b then [digit_char n]
      else digits_of b (n div b) @ [digit_char (n mod b)])"
  by pat_completeness auto
termination
proof (relation "measure (\<lambda>(b, n). nat n)")
  fix b n :: int
  assume "\<not> (b \<le> 1 \<or> n < b)"
  then have "2 \<le> b" "2 \<le> n" by simp_all
  then have "n div b < n"
    by (simp add: int_div_less_self)
  moreover have "0 \<le> n div b"
    using \<open>2 \<le> b\<close> \<open>2 \<le> n\<close> by (simp add: pos_imp_zdiv_nonneg_iff)
  ultimately show "((b, n div b), (b, n)) \<in> measure (\<lambda>(b, n). nat n)"
    by simp
qed simp

declare digits_of.simps [simp del]

definition str_int :: "int \<Rightarrow> string" where
  "str_int n = (if n < 0 then CHR ''-'' # digits_of 10 (- n) else digits_of 10 n)"

definition format_02x :: "int \<Rightarrow> string" where
  "format_02x n =
     (if n < 0 then CHR ''-'' # digits_of 16 (- n)
      else let ds = digits_of 16 n in
           if length ds < 2 then CHR ''0'' # ds else ds)"

text \<open>
  The regular expression \<^verbatim>\<open>hex = ^\-?(0x)?[0-9a-f]+$\<close>, matched at the start of the string;
  \<^verbatim>\<open>$\<close> also matches before one final newline.
\<close>

definition is_hex_lower :: "char \<Rightarrow> bool" where
  "is_hex_lower c \<longleftrightarrow>
     (let n = of_char c :: nat in (48 \<le> n \<and> n \<le> 57) \<or> (97 \<le> n \<and> n \<le> 102))"

definition is_digit :: "char \<Rightarrow> bool" where
  "is_digit c \<longleftrightarrow> (let n = of_char c :: nat in 48 \<le> n \<and> n \<le> 57)"

definition chop_newline :: "string \<Rightarrow> string" where
  "chop_newline s = (if s \<noteq> [] \<and> last s = CHR 0x0A then butlast s else s)"

definition hex_match :: "string \<Rightarrow> bool" where
  "hex_match text =
     (let s = chop_newline text;
          s1 = (case s of c # r \<Rightarrow> if c = CHR ''-'' then r else s | [] \<Rightarrow> s);
          all_hex = (\<lambda>t. t \<noteq> [] \<and> list_all is_hex_lower t)
      in all_hex s1 \<or> (startswith s1 ''0x'' \<and> all_hex (drop 2 s1)))"

text \<open>
  The regular expression \<^verbatim>\<open>slice_re = ^([^\[]+)(?:\[(\d+):(\d+)\])?$\<close>: the groups
  \<open>(label, hi, lo)\<close> of a match, \<open>None\<close> when the text does not match.
\<close>

definition bracket_match :: "string \<Rightarrow> (string \<times> string) option" where
  "bracket_match t =
     (case t of
        [] \<Rightarrow> None
      | c # r \<Rightarrow>
          if c \<noteq> CHR ''['' then None
          else
            let hi = takeWhile is_digit r; r1 = dropWhile is_digit r in
            (case r1 of
               [] \<Rightarrow> None
             | c1 # r2 \<Rightarrow>
                 if hi = [] \<or> c1 \<noteq> CHR '':'' then None
                 else
                   let lo = takeWhile is_digit r2; r3 = dropWhile is_digit r2 in
                   if lo \<noteq> [] \<and> (r3 = '']'' \<or> r3 = [CHR '']'', CHR 0x0A]) then Some (hi, lo)
                   else None))"

definition slice_re_match :: "string \<Rightarrow> (string \<times> (string \<times> string) option) option" where
  "slice_re_match text =
     (let label = takeWhile (\<lambda>c. c \<noteq> CHR ''['') text;
          rest = dropWhile (\<lambda>c. c \<noteq> CHR ''['') text
      in if label = [] then None
         else if rest = [] then Some (label, None)
         else case bracket_match rest of
                None \<Rightarrow> None
              | Some hl \<Rightarrow> Some (label, Some hl))"

text \<open>
  The regular expression \<^verbatim>\<open>field_re = ^(imm|off)(\d+)$\<close>: the groups \<open>(mode, size)\<close>.
\<close>

definition field_re_match :: "string \<Rightarrow> (string \<times> string) option" where
  "field_re_match text =
     (let s = chop_newline text; mode = take 3 s; ds = drop 3 s
      in if (mode = ''imm'' \<or> mode = ''off'') \<and> ds \<noteq> [] \<and> list_all is_digit ds
         then Some (mode, ds) else None)"

section \<open>subv.py: parsing and printing the intermediate language\<close>

text \<open>
  A part is a non-empty Python tuple whose components are integers or strings: its first
  component and the tuple of the others (the tags). \<^verbatim>\<open>part[0]\<close> is \<open>fst\<close>, \<^verbatim>\<open>part[1:]\<close> is
  \<open>snd\<close>, \<^verbatim>\<open>part[1]\<close> raises \<^verbatim>\<open>IndexError\<close> when there is no tag.
\<close>

datatype item = I int | S string

type_synonym part = "item \<times> item list"

fun map_err :: "('a \<Rightarrow> error + 'b) \<Rightarrow> 'a list \<Rightarrow> error + 'b list" where
  "map_err f [] = Inr []"
| "map_err f (x # xs) = bind (f x) (\<lambda>y. bind (map_err f xs) (\<lambda>ys. Inr (y # ys)))"

definition parse_part :: "string \<Rightarrow> error + part" where
  "parse_part text =
     (let ps = split_on CHR ''/'' text in
      if hex_match (hd ps) then bind (py_int 16 (hd ps)) (\<lambda>n. Inr (I n, map S (tl ps)))
      else Inr (S (hd ps), map S (tl ps)))"

definition parse_instr :: "string \<Rightarrow> error + part list" where
  "parse_instr text = map_err parse_part (filter (\<lambda>p. p \<noteq> []) (white_split text))"

text \<open>
  \<^verbatim>\<open>parse_segment\<close> returns the tuple \<^verbatim>\<open>(name, base)\<close> or the tuple \<^verbatim>\<open>(name,)\<close>: a name with
  an optional base address.
\<close>

definition parse_segment :: "string \<Rightarrow> error + string \<times> int option" where
  "parse_segment text =
     (let parts = white_split text in
      if length parts = 3 then bind (py_int 16 (parts ! 2)) (\<lambda>n. Inr (parts ! 1, Some n))
      else if length parts = 2 then Inr (parts ! 1, None)
      else Inl InvalidSegmentLine)"

definition parse_label :: "string \<Rightarrow> string" where
  "parse_label text = butlast text"

text \<open>
  The record \<^verbatim>\<open>parse_reference\<close> returns: the keys \<^verbatim>\<open>hi\<close> and \<^verbatim>\<open>lo\<close> are present together or
  not at all.
\<close>

record reference =
  label :: string
  mode :: string
  rsize :: int
  meta :: "item list"
  bounds :: "(int \<times> int) option"

definition parse_reference :: "part \<Rightarrow> error + reference" where
  "parse_reference part =
     (case snd part of
        [] \<Rightarrow> Inl IndexError
      | field # rest \<Rightarrow>
          (case fst part of
             I _ \<Rightarrow> Inl TypeError
           | S ref \<Rightarrow>
               (case slice_re_match ref of
                  None \<Rightarrow> Inl AttributeError
                | Some (lbl, hl) \<Rightarrow>
                    (case field of
                       I _ \<Rightarrow> Inl TypeError
                     | S f \<Rightarrow>
                         (case field_re_match f of
                            None \<Rightarrow> Inl AttributeError
                          | Some (md, sz) \<Rightarrow>
                              bind (py_int 10 sz) (\<lambda>n.
                                let r = \<lparr>label = lbl, mode = md, rsize = n, meta = rest,
                                         bounds = None\<rparr>
                                in case hl of
                                     None \<Rightarrow> Inr r
                                   | Some (h, l) \<Rightarrow>
                                       bind (py_int 10 h) (\<lambda>hi.
                                       bind (py_int 10 l) (\<lambda>lo.
                                         Inr (r\<lparr>bounds := Some (hi, lo)\<rparr>)))))))))"

datatype ltype = Empty | Segment | Label | Instr

definition classify :: "string \<Rightarrow> ltype" where
  "classify text =
     (if text = [] then Empty
      else if startswith text ''=='' then Segment
      else if endswith text '':'' then Label
      else Instr)"

text \<open>
  The dictionary \<^verbatim>\<open>parse\<close> returns has the keys \<^verbatim>\<open>type\<close>, \<^verbatim>\<open>raw\<close>, \<^verbatim>\<open>line\<close>, \<^verbatim>\<open>comment\<close> and one key
  named after the type, which holds what the line was parsed to.
\<close>

datatype content =
    NoContent
  | SegmentOf "string \<times> int option"
  | LabelOf string
  | InstrOf "part list"

record line =
  l_type :: ltype
  l_raw :: string
  l_line :: string
  l_comment :: "string option"
  l_content :: content

definition parse :: "string \<Rightarrow> error + line" where
  "parse text =
     (let raw = strip text;
          split = split_first CHR ''#'' raw;
          clean = (if length split = 1 then raw else split ! 0);
          cmt = (if length split = 1 then None else Some (split ! 1));
          ty = classify clean
      in bind (case ty of
                 Segment \<Rightarrow> bind (parse_segment clean) (\<lambda>s. Inr (SegmentOf s))
               | Label \<Rightarrow> Inr (LabelOf (parse_label clean))
               | Instr \<Rightarrow> bind (parse_instr clean) (\<lambda>ps. Inr (InstrOf ps))
               | Empty \<Rightarrow> Inr NoContent)
           (\<lambda>parsed. Inr \<lparr>l_type = ty, l_raw = raw, l_line = clean, l_comment = cmt,
                            l_content = parsed\<rparr>))"

definition is_reference :: "part \<Rightarrow> bool" where
  "is_reference part = (case fst part of S _ \<Rightarrow> True | I _ \<Rightarrow> False)"

text \<open>\<^verbatim>\<open>untag(part, expect)\<close>: \<^verbatim>\<open>None\<close> and the empty string are both false for \<^verbatim>\<open>if expect\<close>.\<close>

definition untag :: "part \<Rightarrow> string option \<Rightarrow> error + item" where
  "untag part expect =
     (case expect of
        None \<Rightarrow> Inr (fst part)
      | Some e \<Rightarrow>
          if e = [] then Inr (fst part)
          else (case snd part of
                  [] \<Rightarrow> Inl IndexError
                | t # _ \<Rightarrow> if t \<noteq> S e then Inl ExpectedLabelled else Inr (fst part)))"

text \<open>\<^verbatim>\<open>str(p)\<close> for a component of a part.\<close>

definition str_item :: "item \<Rightarrow> string" where
  "str_item p = (case p of I n \<Rightarrow> str_int n | S s \<Rightarrow> s)"

definition format_part :: "part \<Rightarrow> string" where
  "format_part part =
     (case fst part of
        I n \<Rightarrow> join ''/'' (format_02x n # map str_item (snd part))
      | S s \<Rightarrow> join ''/'' (map str_item (S s # snd part)))"

text \<open>\<^verbatim>\<open>subv.format(line)\<close>: the printer of an instruction line.\<close>

definition subv_format :: "line \<Rightarrow> error + string" where
  "subv_format ln =
     (if l_type ln = Instr then
        (case l_content ln of
           InstrOf parts \<Rightarrow>
             let packed = join '' '' (map format_part parts) in
             (case l_comment ln of
                None \<Rightarrow> Inr packed
              | Some c \<Rightarrow> Inr (if c \<noteq> [] then packed @ '' # '' @ c else packed))
         | _ \<Rightarrow> Inl KeyError)
      else Inl NotImplementedError)"

section \<open>format.py: the Format stage\<close>

text \<open>A bit-field as a part of an instruction: the tuple \<^verbatim>\<open>(value, width)\<close>.\<close>

definition bf_part :: "bitfield \<Rightarrow> part" where
  "bf_part b = (I (fst b), [I (snd b)])"

text \<open>
  \<^verbatim>\<open>bits.u\<close> and \<^verbatim>\<open>bits.i\<close> applied to what \<^verbatim>\<open>untag\<close> returned: comparing a string with a
  number raises \<^verbatim>\<open>TypeError\<close>.
\<close>

definition u_item :: "item \<Rightarrow> int \<Rightarrow> error + part" where
  "u_item x bits = (case x of S _ \<Rightarrow> Inl TypeError | I n \<Rightarrow> bind (u n bits) (\<lambda>b. Inr (bf_part b)))"

definition i_item :: "item \<Rightarrow> int \<Rightarrow> error + part" where
  "i_item x bits =
     (case x of
        S _ \<Rightarrow> bind (shl 1 (bits - 1)) (\<lambda>_. Inl TypeError)
      | I n \<Rightarrow> bind (i n bits) (\<lambda>b. Inr (bf_part b)))"

text \<open>\<^verbatim>\<open>'{label}[{hi}:{lo}]'.format(**ref)\<close>.\<close>

definition ref_text :: "string \<Rightarrow> int \<Rightarrow> int \<Rightarrow> string" where
  "ref_text lbl hi lo = lbl @ ''['' @ str_int hi @ '':'' @ str_int lo @ '']''"

definition default_slice :: "part \<Rightarrow> int \<Rightarrow> int \<Rightarrow> error + part" where
  "default_slice val hi lo =
     bind (parse_reference val) (\<lambda>parsed.
       let hl = (case bounds parsed of None \<Rightarrow> (hi, lo) | Some b \<Rightarrow> b);
           p_size = fst hl - snd hl + 1
       in if rsize parsed \<noteq> p_size then Inl AssertSliceWidth
          else Inr (S (ref_text (label parsed) (fst hl) (snd hl)), snd val))"

text \<open>
  \<^verbatim>\<open>slice_bit_or_ref(val, hi, lo)\<close>. A part that does not start with a string goes to
  \<^verbatim>\<open>bits.slice\<close>, whose \<^verbatim>\<open>(val, size) = bits\<close> needs a pair.
\<close>

definition slice_bit_or_ref :: "part \<Rightarrow> int \<Rightarrow> int \<Rightarrow> error + part" where
  "slice_bit_or_ref val hi lo =
     (case fst val of
        I v \<Rightarrow>
          (case snd val of
             [I w] \<Rightarrow> bind (slice (v, w) hi lo) (\<lambda>b. Inr (bf_part b))
           | [S _] \<Rightarrow>
               if hi < lo then Inl ReverseRange
               else if lo < 0 then Inl SliceOutOfRange
               else Inl TypeError
           | _ \<Rightarrow> Inl UnpackError)
      | S _ \<Rightarrow>
          bind (parse_reference val) (\<lambda>ref.
            case bounds ref of
              None \<Rightarrow> Inl AssertNoBounds
            | Some (rhi, rlo) \<Rightarrow>
                let sz = hi - lo; lo' = rlo + lo; hi' = lo' + sz in
                if \<not> hi' \<le> rhi then Inl AssertOutsideBounds
                else Inr (S (ref_text (label ref) hi' lo'),
                          S (mode ref @ str_int (sz + 1)) # drop 1 (snd val))))"

definition pack_u :: "part list \<Rightarrow> error + part list" where
  "pack_u instr =
     (case instr of
        [op, rd, imm] \<Rightarrow>
          bind (bind (untag op None) (\<lambda>x. u_item x 7)) (\<lambda>op'.
          bind (bind (untag rd (Some ''rd'')) (\<lambda>x. u_item x 5)) (\<lambda>rd'.
          bind (if is_reference imm then default_slice imm 31 12
                else bind (untag imm (Some ''imm20'')) (\<lambda>x. i_item x 20)) (\<lambda>imm'.
            Inr [op', rd', imm'])))
      | _ \<Rightarrow> Inl UnpackError)"

definition pack_i :: "part list \<Rightarrow> error + part list" where
  "pack_i instr =
     (case instr of
        [op, sub, rd, rs, imm] \<Rightarrow>
          bind (bind (untag op None) (\<lambda>x. u_item x 7)) (\<lambda>op'.
          bind (bind (untag sub (Some ''subop'')) (\<lambda>x. u_item x 3)) (\<lambda>sub'.
          bind (bind (untag rd (Some ''rd'')) (\<lambda>x. u_item x 5)) (\<lambda>rd'.
          bind (bind (untag rs (Some ''rs'')) (\<lambda>x. u_item x 5)) (\<lambda>rs'.
          bind (if is_reference imm then default_slice imm 11 0
                else bind (untag imm (Some ''imm12'')) (\<lambda>x. i_item x 12)) (\<lambda>imm'.
            Inr [op', rd', sub', rs', imm'])))))
      | _ \<Rightarrow> Inl UnpackError)"

definition pack_s :: "part list \<Rightarrow> error + part list" where
  "pack_s instr =
     (case instr of
        [op, sub, rs1, rs2, imm] \<Rightarrow>
          bind (bind (untag op None) (\<lambda>x. u_item x 7)) (\<lambda>op'.
          bind (bind (untag sub (Some ''subop'')) (\<lambda>x. u_item x 3)) (\<lambda>sub'.
          bind (bind (untag rs1 (Some ''rs'')) (\<lambda>x. u_item x 5)) (\<lambda>rs1'.
          bind (bind (untag rs2 (Some ''rs'')) (\<lambda>x. u_item x 5)) (\<lambda>rs2'.
          bind (if is_reference imm then default_slice imm 11 0
                else bind (untag imm (Some ''off12'')) (\<lambda>x. i_item x 12)) (\<lambda>imm'.
          bind (slice_bit_or_ref imm' 4 0) (\<lambda>imm_lo.
          bind (slice_bit_or_ref imm' 11 5) (\<lambda>imm_hi.
            Inr [op', imm_lo, sub', rs1', rs2', imm_hi])))))))
      | _ \<Rightarrow> Inl UnpackError)"

definition pack_j :: "part list \<Rightarrow> error + part list" where
  "pack_j instr =
     (case instr of
        [op, rd, imm] \<Rightarrow>
          bind (bind (untag op None) (\<lambda>x. u_item x 7)) (\<lambda>op'.
          bind (bind (untag rd (Some ''rd'')) (\<lambda>x. u_item x 5)) (\<lambda>rd'.
          bind (if is_reference imm then default_slice imm 20 1
                else bind (untag imm (Some ''off20'')) (\<lambda>x. i_item x 20)) (\<lambda>imm'.
          bind (slice_bit_or_ref imm' 9 0) (\<lambda>imm_lo.
          bind (slice_bit_or_ref imm' 10 10) (\<lambda>imm_11.
          bind (slice_bit_or_ref imm' 18 11) (\<lambda>imm_hi.
          bind (slice_bit_or_ref imm' 19 19) (\<lambda>imm_20.
            Inr [op', rd', imm_hi, imm_11, imm_lo, imm_20])))))))
      | _ \<Rightarrow> Inl UnpackError)"

definition pack_b :: "part list \<Rightarrow> error + part list" where
  "pack_b instr =
     (case instr of
        [op, sub, rs1, rs2, imm] \<Rightarrow>
          bind (bind (untag op None) (\<lambda>x. u_item x 7)) (\<lambda>op'.
          bind (bind (untag sub (Some ''subop'')) (\<lambda>x. u_item x 3)) (\<lambda>sub'.
          bind (bind (untag rs1 (Some ''rs'')) (\<lambda>x. u_item x 5)) (\<lambda>rs1'.
          bind (bind (untag rs2 (Some ''rs'')) (\<lambda>x. u_item x 5)) (\<lambda>rs2'.
          bind (if is_reference imm then default_slice imm 12 1
                else bind (untag imm (Some ''off12'')) (\<lambda>x. i_item x 12)) (\<lambda>imm'.
          bind (slice_bit_or_ref imm' 3 0) (\<lambda>imm_lo.
          bind (slice_bit_or_ref imm' 9 4) (\<lambda>imm_md.
          bind (slice_bit_or_ref imm' 10 10) (\<lambda>imm_11.
          bind (slice_bit_or_ref imm' 11 11) (\<lambda>imm_12.
            Inr [op', imm_11, imm_lo, sub', rs1', rs2', imm_md, imm_12])))))))))
      | _ \<Rightarrow> Inl UnpackError)"

text \<open>\<^verbatim>\<open>instr_map\<close>: the packer and the opcode of each mnemonic.\<close>

definition instr_map :: "string \<Rightarrow> ((part list \<Rightarrow> error + part list) \<times> int) option" where
  "instr_map name =
     (if name = ''load'' then Some (pack_i, 0x03)
      else if name = ''opi'' then Some (pack_i, 0x13)
      else if name = ''jalr'' then Some (pack_i, 0x67)
      else if name = ''store'' then Some (pack_s, 0x23)
      else if name = ''branch'' then Some (pack_b, 0x63)
      else if name = ''lui'' then Some (pack_u, 0x37)
      else if name = ''auipc'' then Some (pack_u, 0x17)
      else if name = ''jal'' then Some (pack_j, 0x6f)
      else None)"

text \<open>
  The branch of \<^verbatim>\<open>format\<close> that rewrites an instruction line of the code segment: it returns
  the packed parts.
\<close>

definition format_instr :: "part list \<Rightarrow> error + part list" where
  "format_instr instr =
     (case instr of
        [] \<Rightarrow> Inl IndexError
      | op # _ \<Rightarrow>
          if length (snd op) \<noteq> 1 then Inl AssertNoOpLabel
          else (case hd (snd op) of
                  I _ \<Rightarrow> Inl UnknownInstruction
                | S lbl \<Rightarrow>
                    (case instr_map lbl of
                       None \<Rightarrow> Inl UnknownInstruction
                     | Some (formatter, expected) \<Rightarrow>
                         if fst op \<noteq> I expected then Inl OpcodeMismatch
                         else formatter instr)))"

text \<open>
  One turn of the loop of \<^verbatim>\<open>format\<close>: from the variable \<^verbatim>\<open>segment\<close> and an input line to the
  new value of \<^verbatim>\<open>segment\<close> and the line that is yielded.
\<close>

definition format_step :: "string option \<Rightarrow> string \<Rightarrow> error + string option \<times> string" where
  "format_step segment text =
     bind (parse text) (\<lambda>ln.
       if segment = Some ''code'' \<and> l_type ln = Instr then
         (case l_content ln of
            InstrOf instr \<Rightarrow>
              bind (format_instr instr) (\<lambda>packed.
              bind (subv_format (ln\<lparr>l_content := InstrOf packed\<rparr>)) (\<lambda>out.
                Inr (segment, out)))
          | _ \<Rightarrow> Inl KeyError)
       else if l_type ln = Segment then
         (case l_content ln of
            SegmentOf seg \<Rightarrow> Inr (Some (fst seg), l_raw ln)
          | _ \<Rightarrow> Inl KeyError)
       else Inr (segment, l_raw ln))"

text \<open>
  The generator \<^verbatim>\<open>format(iter)\<close>: the lines it yields, and the exception that ended it, if
  one did.
\<close>

fun format_from :: "string option \<Rightarrow> string list \<Rightarrow> string list \<times> error option" where
  "format_from segment [] = ([], None)"
| "format_from segment (text # rest) =
     (case format_step segment text of
        Inl e \<Rightarrow> ([], Some e)
      | Inr (segment', out) \<Rightarrow>
          (case format_from segment' rest of (outs, r) \<Rightarrow> (out # outs, r)))"

definition format :: "string list \<Rightarrow> string list \<times> error option" where
  "format lines = format_from None lines"

section \<open>survey.py: the Survey stage\<close>

text \<open>\<^verbatim>\<open>int(x)\<close> for a component of a part: a number is returned as it is, a string is read.\<close>

definition int_item :: "item \<Rightarrow> error + int" where
  "int_item x = (case x of I n \<Rightarrow> Inr n | S s \<Rightarrow> py_int 10 s)"

text \<open>\<^verbatim>\<open>observe(part, rel_addr, map)\<close>; the symbol table is a dictionary from labels to addresses.\<close>

definition observe :: "part \<Rightarrow> int \<Rightarrow> (string \<rightharpoonup> int) \<Rightarrow> error + part" where
  "observe part rel_addr labels =
     (if \<not> is_reference part then Inr part
      else
        bind (parse_reference part) (\<lambda>ref.
          case labels (label ref) of
            None \<Rightarrow> Inl AssertUndefinedLabel
          | Some addr \<Rightarrow>
              bind (if mode ref = ''imm'' then u addr 32 else i (addr - rel_addr) 32) (\<lambda>a.
                case bounds ref of
                  None \<Rightarrow> Inl KeyError
                | Some (hi, lo) \<Rightarrow> bind (slice a hi lo) (\<lambda>b. Inr (bf_part b)))))"

text \<open>The inner loop of the first pass: the sum of the widths of the parts of a line.\<close>

fun instr_bits :: "int \<Rightarrow> part list \<Rightarrow> error + int" where
  "instr_bits bits [] = Inr bits"
| "instr_bits bits (part # parts) =
     bind (if is_reference part then bind (parse_reference part) (\<lambda>ref. Inr (rsize ref))
           else (case snd part of [] \<Rightarrow> Inl IndexError | t # _ \<Rightarrow> int_item t))
       (\<lambda>n. instr_bits (bits + n) parts)"

text \<open>
  The state of the first pass: the queue of the parsed lines, each with the address that
  was current when it was read, the symbol table, and the current address.
\<close>

type_synonym survey_state = "(line \<times> int) list \<times> (string \<rightharpoonup> int) \<times> int"

definition survey_step :: "survey_state \<Rightarrow> string \<Rightarrow> error + survey_state" where
  "survey_step st text =
     (case st of (queue, labels, addr) \<Rightarrow>
        bind (parse text) (\<lambda>ln.
          let queue' = queue @ [(ln, addr)] in
          if l_type ln = Segment then
            (case l_content ln of
               SegmentOf seg \<Rightarrow>
                 (case snd seg of
                    None \<Rightarrow> Inl UnpackError
                  | Some base \<Rightarrow> Inr (queue', labels, base))
             | _ \<Rightarrow> Inl KeyError)
          else if l_type ln = Label then
            (case l_content ln of
               LabelOf lbl \<Rightarrow> Inr (queue', labels(lbl \<mapsto> addr), addr)
             | _ \<Rightarrow> Inl KeyError)
          else if l_type ln = Instr then
            (case l_content ln of
               InstrOf instr \<Rightarrow>
                 bind (instr_bits 0 instr) (\<lambda>bits.
                   if bits mod 8 \<noteq> 0 then Inl AssertLineNotByteAligned
                   else Inr (queue', labels, addr + bits div 8))
             | _ \<Rightarrow> Inl KeyError)
          else Inr (queue', labels, addr)))"

fun survey_pass1 :: "survey_state \<Rightarrow> string list \<Rightarrow> error + survey_state" where
  "survey_pass1 st [] = Inr st"
| "survey_pass1 st (text # rest) = bind (survey_step st text) (\<lambda>st'. survey_pass1 st' rest)"

text \<open>The second pass: what is yielded for one line of the queue, if anything.\<close>

definition survey_emit :: "(string \<rightharpoonup> int) \<Rightarrow> line \<times> int \<Rightarrow> error + string option" where
  "survey_emit labels entry =
     (case entry of (ln, addr) \<Rightarrow>
        if l_type ln = Instr then
          (case l_content ln of
             InstrOf parts \<Rightarrow>
               bind (map_err (\<lambda>part. observe part addr labels) parts) (\<lambda>instr.
               bind (subv_format (ln\<lparr>l_content := InstrOf instr\<rparr>)) (\<lambda>out. Inr (Some out)))
           | _ \<Rightarrow> Inl KeyError)
        else if l_type ln = Segment then Inr (Some (l_raw ln))
        else Inr None)"

fun survey_pass2 :: "(string \<rightharpoonup> int) \<Rightarrow> (line \<times> int) list \<Rightarrow> string list \<times> error option" where
  "survey_pass2 labels [] = ([], None)"
| "survey_pass2 labels (entry # queue) =
     (case survey_emit labels entry of
        Inl e \<Rightarrow> ([], Some e)
      | Inr out \<Rightarrow>
          (case survey_pass2 labels queue of
             (outs, r) \<Rightarrow> ((case out of None \<Rightarrow> outs | Some l \<Rightarrow> l # outs), r)))"

text \<open>
  The generator \<^verbatim>\<open>survey(iter)\<close>: nothing is yielded before the first pass is over; it starts
  with an empty queue, an empty symbol table and the address \<open>-1\<close>.
\<close>

definition survey :: "string list \<Rightarrow> string list \<times> error option" where
  "survey lines =
     (case survey_pass1 ([], Map.empty, - 1) lines of
        Inl e \<Rightarrow> ([], Some e)
      | Inr (queue, labels, addr) \<Rightarrow> survey_pass2 labels queue)"

section \<open>pack.py: the Pack stage\<close>

text \<open>\<^verbatim>\<open>bits.from_part(part)\<close>.\<close>

definition from_part :: "part \<Rightarrow> error + bitfield" where
  "from_part part =
     bind (int_item (fst part)) (\<lambda>val.
       case snd part of
         [] \<Rightarrow> Inl IndexError
       | sz # _ \<Rightarrow> bind (int_item sz) (\<lambda>n. Inr (val, n)))"

text \<open>
  \<^verbatim>\<open>byteify(word)\<close>: \<^verbatim>\<open>range(0, size, 8)\<close> for a size that is a multiple of 8 is the list of
  \<open>8 * k\<close> for \<open>k\<close> below \<open>size div 8\<close>; each byte is yielded as the tuple \<^verbatim>\<open>(byte,)\<close>.
\<close>

definition byteify :: "bitfield \<Rightarrow> error + part list" where
  "byteify word =
     (if snd word mod 8 \<noteq> 0 then Inl AssertNotByteAligned
      else map_err (\<lambda>k. bind (slice word (8 * int k + 7) (8 * int k)) (\<lambda>byte. Inr (I (fst byte), [])))
             [0..<nat (snd word div 8)])"

text \<open>One turn of the loop of \<^verbatim>\<open>pack\<close>.\<close>

definition pack_step :: "string option \<Rightarrow> string \<Rightarrow> error + string option \<times> string" where
  "pack_step segment text =
     bind (parse text) (\<lambda>ln.
       if l_type ln = Instr then
         (case l_content ln of
            InstrOf instr \<Rightarrow>
              bind (map_err from_part instr) (\<lambda>fields.
              bind (concat_bits fields) (\<lambda>total.
              bind (byteify total) (\<lambda>bytes.
              bind (subv_format (ln\<lparr>l_content := InstrOf bytes\<rparr>)) (\<lambda>out.
                Inr (segment, out)))))
          | _ \<Rightarrow> Inl KeyError)
       else if l_type ln = Segment then
         (case l_content ln of
            SegmentOf seg \<Rightarrow> Inr (Some (fst seg), l_raw ln)
          | _ \<Rightarrow> Inl KeyError)
       else Inr (segment, l_raw ln))"

fun pack_from :: "string option \<Rightarrow> string list \<Rightarrow> string list \<times> error option" where
  "pack_from segment [] = ([], None)"
| "pack_from segment (text # rest) =
     (case pack_step segment text of
        Inl e \<Rightarrow> ([], Some e)
      | Inr (segment', out) \<Rightarrow>
          (case pack_from segment' rest of (outs, r) \<Rightarrow> (out # outs, r)))"

definition pack :: "string list \<Rightarrow> string list \<times> error option" where
  "pack lines = pack_from None lines"

section \<open>The example program\<close>

text \<open>
  The program of the doctests of \<^verbatim>\<open>format.py\<close>, \<^verbatim>\<open>survey.py\<close> and \<^verbatim>\<open>pack.py\<close>: a \<^verbatim>\<open>lui\<close>, six
  pairs of \<^verbatim>\<open>opi\<close> and \<^verbatim>\<open>store\<close>, and a \<^verbatim>\<open>jal\<close> back to the label \<^verbatim>\<open>main\<close> at the start of the
  segment \<^verbatim>\<open>code\<close>.
\<close>

definition hello_program :: "string list" where
  "hello_program =
    [''== code 0x80000000'',
     ''main:'',
     ''# load 0x10010000 (UART0) into t0'',
     ''37/lui 5/rd/t0 0x10010/imm20'',
     ''# store 0x48 (H) in UART0+0'',
     ''13/opi 0/subop/add 6/rd/t1 0/rs/x0 48/imm12'',
     ''23/store 2/subop/word 5/rs/t0 6/rs/t1 0/off12'',
     ''# store 0x65 (e) in UART0+0'',
     ''13/opi 0/subop/add 6/rd/t1 0/rs/x0 65/imm12'',
     ''23/store 2/subop/word 5/rs/t0 6/rs/t1 0/off12'',
     ''# store 0x6c (l) in UART0+0'',
     ''13/opi 0/subop/add 6/rd/t1 0/rs/x0 6c/imm12'',
     ''23/store 2/subop/word 5/rs/t0 6/rs/t1 0/off12'',
     ''# store 0x6c (l) in UART0+0'',
     ''13/opi 0/subop/add 6/rd/t1 0/rs/x0 6c/imm12'',
     ''23/store 2/subop/word 5/rs/t0 6/rs/t1 0/off12'',
     ''# store 0x6f (o) in UART0+0'',
     ''13/opi 0/subop/add 6/rd/t1 0/rs/x0 6f/imm12'',
     ''23/store 2/subop/word 5/rs/t0 6/rs/t1 0/off12'',
     ''# store 0x0a ('' @ [CHR 0x5C] @ ''n) in UART0+0'',
     ''13/opi 0/subop/add 6/rd/t1 0/rs/x0 0a/imm12'',
     ''23/store 2/subop/word 5/rs/t0 6/rs/t1 0/off12'',
     ''# jump back up to the top'',
     ''6f/jal 0/rd/x0 main/off20'']"

section \<open>Properties of bits.py\<close>

lemma bit_length_le:
  assumes "0 \<le> n"
  shows "bit_length n \<le> w \<longleftrightarrow> 0 \<le> w \<and> n < 2 ^ nat w"
  using assms
proof (induction n arbitrary: w rule: bit_length.induct)
  case (1 n)
  show ?case
  proof (cases "n = 0")
    case True
    then show ?thesis by (simp add: bit_length.simps)
  next
    case False
    with "1.prems" have pos: "0 < n" by simp
    have step: "bit_length n = 1 + bit_length (n div 2)"
      using pos by (subst bit_length.simps) simp
    have ih: "bit_length (n div 2) \<le> w - 1 \<longleftrightarrow> 0 \<le> w - 1 \<and> n div 2 < 2 ^ nat (w - 1)"
      using "1.IH" [OF False, of "w - 1"] pos by simp
    show ?thesis
    proof (cases "1 \<le> w")
      case True
      define k :: int where "k = 2 ^ nat (w - 1)"
      have "nat w = Suc (nat (w - 1))" using True by simp
      then have p: "(2::int) ^ nat w = 2 * k" by (simp add: k_def)
      have "n div 2 < k \<longleftrightarrow> n < 2 * k" by linarith
      with ih True show ?thesis unfolding step p k_def [symmetric] by auto
    next
      case False
      then have w: "w \<le> 0" by simp
      then have "nat w = 0" by simp
      with ih pos w show ?thesis unfolding step by simp
    qed
  qed
qed

lemma shl_one: "0 \<le> k \<Longrightarrow> shl 1 k = Inr (2 ^ nat k)"
  by (simp add: shl_def)

lemma two_power_nat_pred:
  assumes "1 \<le> (w::int)"
  shows "(2::int) ^ nat w = 2 * 2 ^ nat (w - 1)"
proof -
  have "nat w = Suc (nat (w - 1))" using assms by simp
  then show ?thesis by (metis power_Suc)
qed

lemma slice_ok:
  "lo \<le> hi \<Longrightarrow> 0 \<le> lo \<Longrightarrow> hi < w \<Longrightarrow>
   slice (v, w) hi lo = Inr (take_bit (nat (hi - lo + 1)) (drop_bit (nat lo) v), hi - lo + 1)"
  by (simp add: slice_def shl_def shr_def Let_def take_bit_eq_mask mask_eq_exp_minus_1)

lemma take_bit_split:
  "take_bit a (drop_bit l v) OR push_bit a (take_bit b (drop_bit (l + a) v))
     = take_bit (a + b) (drop_bit l (v::int))"
  by (rule bit_eqI) (auto simp: bit_simps ac_simps)

text \<open>
  Claim C8. \<^verbatim>\<open>u(n, w)\<close> returns the pair \<open>(n, w)\<close> exactly when \<open>n\<close> is not negative and its
  bit length is at most \<open>w\<close>, which for a width \<open>w \<ge> 0\<close> says \<open>0 \<le> n < 2 ^ w\<close>, and it succeeds
  with no other result; every negative \<open>n\<close> fails with the negative-not-allowed error and every
  \<open>n \<ge> 2 ^ w\<close> with the value-too-large error; \<open>u(0, 8)\<close> and \<open>u(255, 8)\<close> succeed, \<open>u(256, 8)\<close>
  and \<open>u(-1, 8)\<close> fail.
\<close>

theorem u_spec:
  "(u n w = Inr (n, w) \<longleftrightarrow> 0 \<le> n \<and> bit_length n \<le> w)
   \<and> ((\<exists>r. u n w = Inr r) \<longleftrightarrow> u n w = Inr (n, w))
   \<and> (0 \<le> w \<longrightarrow> (u n w = Inr (n, w) \<longleftrightarrow> 0 \<le> n \<and> n < 2 ^ nat w))
   \<and> (n < 0 \<longrightarrow> u n w = Inl NegativeNotAllowed)
   \<and> (0 \<le> w \<longrightarrow> 2 ^ nat w \<le> n \<longrightarrow> u n w = Inl ValueTooLarge)
   \<and> u 0 8 = Inr (0, 8) \<and> u 255 8 = Inr (255, 8)
   \<and> u 256 8 = Inl ValueTooLarge \<and> u (- 1) 8 = Inl NegativeNotAllowed"
proof -
  have le: "bit_length m \<le> v \<longleftrightarrow> m < 2 ^ nat v" if "0 \<le> m" "0 \<le> v" for m v
    using bit_length_le [OF that(1), of v] that(2) by simp
  have a: "u n w = Inr (n, w) \<longleftrightarrow> 0 \<le> n \<and> bit_length n \<le> w"
    by (auto simp: u_def)
  have b: "(\<exists>r. u n w = Inr r) \<longleftrightarrow> u n w = Inr (n, w)"
    by (auto simp: u_def split: if_splits)
  have c: "0 \<le> w \<longrightarrow> (u n w = Inr (n, w) \<longleftrightarrow> 0 \<le> n \<and> n < 2 ^ nat w)"
    using a le by auto
  have d: "n < 0 \<longrightarrow> u n w = Inl NegativeNotAllowed"
    by (simp add: u_def)
  have e: "0 \<le> w \<longrightarrow> 2 ^ nat w \<le> n \<longrightarrow> u n w = Inl ValueTooLarge"
  proof (intro impI)
    assume w: "0 \<le> w" and n: "2 ^ nat w \<le> n"
    have "0 \<le> n" using n by (smt (verit) zero_less_power)
    with le [of n w] w n have "\<not> bit_length n \<le> w" by simp
    with \<open>0 \<le> n\<close> show "u n w = Inl ValueTooLarge" by (simp add: u_def)
  qed
  have f: "u 0 8 = Inr (0, 8)" "u 255 8 = Inr (255, 8)"
     "u 256 8 = Inl ValueTooLarge" "u (- 1) 8 = Inl NegativeNotAllowed"
    using le [of 0 8] le [of 255 8] le [of 256 8] by (simp_all add: u_def)
  from a b c d e f show ?thesis by blast
qed

theorem u_spec_witness:
  "u 5 8 = Inr (5, 8) \<and> u (- 3) 8 = Inl NegativeNotAllowed \<and> u 300 8 = Inl ValueTooLarge"
  using u_spec [of 5 8] u_spec [of "- 3" 8] u_spec [of 300 8] by simp

text \<open>
  Claim C7. For a width \<open>w \<ge> 1\<close>: when \<open>- 2 ^ (w - 1) \<le> n \<le> 2 ^ (w - 1) - 1\<close>, \<^verbatim>\<open>i(n, w)\<close>
  succeeds and returns what \<^verbatim>\<open>u(n mod 2 ^ w, w)\<close> returns, the bit-field
  \<open>(n mod 2 ^ w, w)\<close>, where a negative \<open>n\<close> has become \<open>2 ^ w + n\<close>; for every \<open>n\<close> outside
  that range \<^verbatim>\<open>i(n, w)\<close> fails.
\<close>

theorem i_spec:
  assumes "1 \<le> w"
  shows "(- (2 ^ nat (w - 1)) \<le> n \<and> n \<le> 2 ^ nat (w - 1) - 1 \<longrightarrow>
            i n w = u (n mod 2 ^ nat w) w \<and> i n w = Inr (n mod 2 ^ nat w, w)
            \<and> (n < 0 \<longrightarrow> n mod 2 ^ nat w = 2 ^ nat w + n))
       \<and> (n < - (2 ^ nat (w - 1)) \<or> 2 ^ nat (w - 1) - 1 < n \<longrightarrow> i n w = Inl SignedTooLarge)"
proof -
  define p :: int where "p = 2 ^ nat (w - 1)"
  have q: "(2::int) ^ nat w = 2 * p"
    unfolding p_def by (rule two_power_nat_pred [OF assms])
  have p0: "0 < p" by (simp add: p_def)
  have w0: "0 \<le> w" "0 \<le> w - 1" using assms by simp_all
  have unfold: "i n w =
      (if n > - 1 - (- p) \<or> n < - p then Inl SignedTooLarge
       else if n < 0 then u (2 * p + n) w else u n w)"
    by (simp add: i_def shl_one [OF w0(1)] shl_one [OF w0(2)] Let_def q p_def [symmetric])
  have fits: "u m w = Inr (m, w)" if "0 \<le> m" "m < 2 * p" for m
    using that bit_length_le [OF that(1), of w] w0(1) by (simp add: u_def q)
  have out: "i n w = Inl SignedTooLarge" if "n < - p \<or> p - 1 < n"
    using that by (auto simp: unfold)
  have "i n w = u (n mod (2 * p)) w \<and> i n w = Inr (n mod (2 * p), w)
        \<and> (n < 0 \<longrightarrow> n mod (2 * p) = 2 * p + n)"
    if r: "- p \<le> n" "n \<le> p - 1"
  proof (cases "n < 0")
    case True
    have m: "n mod (2 * p) = 2 * p + n"
    proof -
      have "(2 * p + n) mod (2 * p) = 2 * p + n"
        using r True p0 by (intro mod_pos_pos_trivial) linarith+
      then show ?thesis by simp
    qed
    have "u (2 * p + n) w = Inr (2 * p + n, w)"
      using r True p0 by (intro fits) linarith+
    with True r m show ?thesis by (simp add: unfold)
  next
    case False
    then have m: "n mod (2 * p) = n"
      using r p0 by (intro mod_pos_pos_trivial) linarith+
    have "u n w = Inr (n, w)" using False r p0 by (intro fits) linarith+
    with False r m show ?thesis by (simp add: unfold)
  qed
  with out show ?thesis unfolding q p_def [symmetric] by blast
qed

theorem i_spec_witness:
  "i 127 8 = Inr (127, 8) \<and> i (- 128) 8 = Inr (128, 8) \<and> i (- 4) 8 = u 252 8
   \<and> i 128 8 = Inl SignedTooLarge \<and> i (- 129) 8 = Inl SignedTooLarge"
  using i_spec [of 8 127, simplified] i_spec [of 8 "- 128", simplified]
    i_spec [of 8 "- 4", simplified] i_spec [of 8 128, simplified]
    i_spec [of 8 "- 129", simplified]
  by blast

text \<open>
  Claim C2, as the specification states it: \<^verbatim>\<open>concat\<close> of the upper slice \<open>[hi:mid+1]\<close>
  followed by the lower slice \<open>[mid:lo]\<close> equals the slice \<open>[hi:lo]\<close>. It fails for the
  bit-field \<open>(1, 2)\<close> with \<open>hi = 1\<close> and \<open>mid = lo = 0\<close>: \<^verbatim>\<open>concat\<close> puts its first argument at
  the low end, so the two bits come out exchanged.
\<close>

theorem concat_slice_high_first_counterexample:
  "slice (1, 2) 1 (0 + 1) = Inr (0, 1) \<and> slice (1, 2) 0 0 = Inr (1, 1)
   \<and> concat_bits [(0, 1), (1, 1)] = Inr (2, 2) \<and> slice (1, 2) 1 0 = Inr (1, 2)
   \<and> concat_bits [(0, 1), (1, 1)] \<noteq> slice (1, 2) 1 0"
  by (simp add: slice_def shl_def shr_def concat_bits_def)

text \<open>
  Claim C2, amended: for every bit-field \<open>x = (v, w)\<close> and all indices with
  \<open>lo \<le> mid < hi\<close>, \<open>0 \<le> lo\<close> and \<open>hi < w\<close>, both slices succeed and \<^verbatim>\<open>concat\<close> of the lower
  slice \<open>[mid:lo]\<close> followed by the upper slice \<open>[hi:mid+1]\<close> equals the slice \<open>[hi:lo]\<close>.
\<close>

theorem concat_slice:
  assumes "lo \<le> mid" "mid < hi" "0 \<le> lo" "hi < w"
  shows "\<exists>a b. slice (v, w) mid lo = Inr a \<and> slice (v, w) hi (mid + 1) = Inr b
           \<and> concat_bits [a, b] = slice (v, w) hi lo"
proof -
  define l a b where "l = nat lo" and "a = nat (mid - lo + 1)" and "b = nat (hi - mid)"
  have n: "nat (mid + 1) = l + a" "nat (hi - lo + 1) = a + b" "nat (hi - (mid + 1) + 1) = b"
    using assms by (simp_all add: l_def a_def b_def)
  have s1: "slice (v, w) mid lo = Inr (take_bit a (drop_bit l v), mid - lo + 1)"
    using assms by (simp add: slice_ok l_def a_def)
  have s2: "slice (v, w) hi (mid + 1) = Inr (take_bit b (drop_bit (l + a) v), hi - mid)"
    using assms slice_ok [of "mid + 1" hi w v] by (simp add: n b_def)
  have s3: "slice (v, w) hi lo = Inr (take_bit (a + b) (drop_bit l v), hi - lo + 1)"
    using assms by (simp add: slice_ok n l_def)
  have "concat_bits [(take_bit a (drop_bit l v), mid - lo + 1),
                     (take_bit b (drop_bit (l + a) v), hi - mid)]
        = Inr (take_bit (a + b) (drop_bit l v), hi - lo + 1)"
    using assms by (simp add: concat_bits_def shl_def take_bit_split a_def [symmetric])
  with s1 s2 s3 show ?thesis by simp
qed

theorem concat_slice_witness:
  "\<exists>a b. slice (0x12345678, 32) 7 4 = Inr a \<and> slice (0x12345678, 32) 15 (7 + 1) = Inr b
           \<and> concat_bits [a, b] = slice (0x12345678, 32) 15 4"
  using concat_slice [of 4 7 15 32 "0x12345678"] by simp

section \<open>The stages on the example program\<close>

text \<open>
  Claim C1. Format accepts the example program; Survey, run on what Format yields, yields
  the segment header and the fourteen instruction lines, the last of them the \<^verbatim>\<open>jal\<close>
  rendered as \<^verbatim>\<open>6f/7 00/5 ff/8 01/1 3e6/10 01/1\<close>; Pack, run on what Survey yields, renders
  that instruction as the four bytes \<^verbatim>\<open>6f f0 df fc\<close>. No stage raises.
\<close>

theorem hello_program_survey_pack:
  "snd (format hello_program) = None
   \<and> survey (fst (format hello_program)) =
       ([''== code 0x80000000'', ''37/7 05/5 10010/20'',
         ''13/7 06/5 00/3 00/5 48/12'', ''23/7 00/5 02/3 05/5 06/5 00/7'',
         ''13/7 06/5 00/3 00/5 65/12'', ''23/7 00/5 02/3 05/5 06/5 00/7'',
         ''13/7 06/5 00/3 00/5 6c/12'', ''23/7 00/5 02/3 05/5 06/5 00/7'',
         ''13/7 06/5 00/3 00/5 6c/12'', ''23/7 00/5 02/3 05/5 06/5 00/7'',
         ''13/7 06/5 00/3 00/5 6f/12'', ''23/7 00/5 02/3 05/5 06/5 00/7'',
         ''13/7 06/5 00/3 00/5 0a/12'', ''23/7 00/5 02/3 05/5 06/5 00/7'',
         ''6f/7 00/5 ff/8 01/1 3e6/10 01/1''], None)
   \<and> pack (fst (survey (fst (format hello_program)))) =
       ([''== code 0x80000000'', ''b7 02 01 10'', ''13 03 80 04'',
         ''23 a0 62 00'', ''13 03 50 06'', ''23 a0 62 00'', ''13 03 c0 06'',
         ''23 a0 62 00'', ''13 03 c0 06'', ''23 a0 62 00'', ''13 03 f0 06'',
         ''23 a0 62 00'', ''13 03 a0 00'', ''23 a0 62 00'', ''6f f0 df fc''], None)
   \<and> last (fst (survey (fst (format hello_program)))) = ''6f/7 00/5 ff/8 01/1 3e6/10 01/1''
   \<and> last (fst (pack (fst (survey (fst (format hello_program)))))) = ''6f f0 df fc''"
  by code_simp

end
